theory Spec2Isabelle
  imports Main "HOL-Library.FSet"
begin

section \<open>The search index update engine (src/search/search-index/add.js)\<close>

subsection \<open>Data model\<close>

text \<open>
  An index lookup document, as the pipeline hands it to the indexing functions. The
  five collections are JavaScript \<^verbatim>\<open>Set\<close>s of key strings; \<open>latest\<close> is the
  timestamp of the latest visit or bookmark. The field \<^verbatim>\<open>id\<close> of the source is
  \<open>doc_id\<close> here.
\<close>

record IndexLookupDoc =
  doc_id :: string
  domain :: string
  terms :: "string fset"
  urlTerms :: "string fset"
  titleTerms :: "string fset"
  visits :: "string fset"
  bookmarks :: "string fset"
  latest :: nat

text \<open>
  The value stored under a term or domain key is a \<^verbatim>\<open>Map\<close> from document ids to
  objects \<^verbatim>\<open>{ latest: ... }\<close>.
\<close>

datatype termEntry = TermEntry (entry_latest: nat)

type_synonym IndexTermValue = "string \<rightharpoonup> termEntry"

subsection \<open>reduceTermValue\<close>

text \<open>
  \<^verbatim>\<open>reduceTermValue\<close> mutates the \<^verbatim>\<open>Map\<close> it is given and returns that same object, so
  it is modelled over an object heap: a reference is an index into the list of the
  \<^verbatim>\<open>Map\<close> objects allocated so far, \<^verbatim>\<open>null\<close> is \<open>None\<close>, and \<^verbatim>\<open>new Map\<close> appends
  an object to the heap. JavaScript has no dangling references; the model leaves the
  heap as it is for one.
\<close>

type_synonym heap = "IndexTermValue list"

definition reduceTermValue ::
    "nat option \<Rightarrow> IndexLookupDoc \<Rightarrow> heap \<Rightarrow> nat \<times> heap" where
  "reduceTermValue currTermVal indexDoc h =
     (case currTermVal of
        None \<Rightarrow> (length h, h @ [[doc_id indexDoc \<mapsto> TermEntry (latest indexDoc)]])
      | Some r \<Rightarrow> (r, h[r := (h ! r)(doc_id indexDoc \<mapsto> TermEntry (latest indexDoc))]))"

text \<open>
  The store hands out and takes values, not references: what a lookup returns is a
  fresh object, and what \<^verbatim>\<open>put\<close> stores is the content of the object at that
  moment. \<open>reduceTermValue_val\<close> is \<^verbatim>\<open>reduceTermValue\<close> on the contents; lemma
  \<open>reduceTermValue_content\<close> below relates the two.
\<close>

definition reduceTermValue_val ::
    "IndexTermValue option \<Rightarrow> IndexLookupDoc \<Rightarrow> IndexTermValue" where
  "reduceTermValue_val currTermVal indexDoc =
     (case currTermVal of
        None \<Rightarrow> [doc_id indexDoc \<mapsto> TermEntry (latest indexDoc)]
      | Some m \<Rightarrow> m(doc_id indexDoc \<mapsto> TermEntry (latest indexDoc)))"

subsection \<open>The store, the queue and the world around the module\<close>

text \<open>
  Every call into the key-value store can fail. A store failure is decided by the
  place of the call in the source, so that a run is a function of which places fail.
\<close>

datatype site =
    PageLookup | PagePut
  | DomainLookup | DomainPut
  | UrlTermsLookup | UrlTermsBatch
  | TitleTermsLookup | TitleTermsBatch
  | TermsLookup | TermsBatch
  | MetaLookup | MetaBatch
  | BookmarkLookup | BookmarkKeyPut | BookmarkDocPut

datatype error =
    NoDocument string
  | TypeError
  | StoreError site
  | PipelineError string

text \<open>A call that wrote to the store: one \<^verbatim>\<open>put\<close>, or one batch with its keys.\<close>

datatype writeOp = Put string | BatchPut "string fset"

text \<open>
  A unit of work on \<^verbatim>\<open>indexQueue\<close>, with what its closure captures: the promise
  whose \<^verbatim>\<open>resolve\<close> and \<^verbatim>\<open>reject\<close> it calls, and either the value of the
  \<^verbatim>\<open>indexDoc\<close> promise (\<open>None\<close> is \<^verbatim>\<open>undefined\<close>) or the page id.
\<close>

datatype task =
    IndexTask nat "IndexLookupDoc option"
  | BookmarkTask nat string

text \<open>
  The key space of \<^verbatim>\<open>index\<close> is partitioned by key prefix and each part holds values
  of one type: documents under page ids, \<^verbatim>\<open>Map\<close>s under term and domain keys, page
  ids under visit and bookmark keys. The model keeps one map per value type. The keys
  that the indexing functions use come from the pipeline, each from the part of its
  kind (the comment on \<^verbatim>\<open>performIndexing\<close> says that they all live on separate
  indexes), so those functions read and write the part of the key's kind. \<open>writes\<close> records the write calls that succeeded, \<open>errlog\<close> what
  \<^verbatim>\<open>console.error\<close> printed, \<open>promises\<close> the promises handed to callers
  (\<open>None\<close> is pending), \<open>now\<close> what \<^verbatim>\<open>Date.now()\<close> returns.
\<close>

record world =
  docs :: "string \<rightharpoonup> IndexLookupDoc"
  postings :: "string \<rightharpoonup> IndexTermValue"
  stamps :: "string \<rightharpoonup> string"
  writes :: "writeOp list"
  errlog :: "error list"
  queue :: "task list"
  promises :: "(error + unit) option list"
  now :: nat

text \<open>A promise settles once: \<^verbatim>\<open>resolve\<close> and \<^verbatim>\<open>reject\<close> on a settled promise do nothing.\<close>

definition settle :: "nat \<Rightarrow> error + unit \<Rightarrow> world \<Rightarrow> world" where
  "settle p outcome w =
     (if p < length (promises w) \<and> promises w ! p = None
      then w\<lparr>promises := (promises w)[p := Some outcome]\<rparr> else w)"

text \<open>
  A key that a caller supplies can be of any kind, and a lookup of it reads the one
  \<^verbatim>\<open>index\<close>: \<open>index w\<close> is the store as a single map, the value under a key being
  a document, a \<^verbatim>\<open>Map\<close> or a page id according to the part that holds the key.
\<close>

datatype indexValue =
    DocValue IndexLookupDoc
  | MapValue IndexTermValue
  | IdValue string

definition index :: "world \<Rightarrow> string \<rightharpoonup> indexValue" where
  "index w key =
     (case docs w key of
        Some d \<Rightarrow> Some (DocValue d)
      | None \<Rightarrow>
          (case postings w key of
             Some m \<Rightarrow> Some (MapValue m)
           | None \<Rightarrow> map_option IdValue (stamps w key)))"

text \<open>
  Modelled from the spec: the lookup helpers of \<^verbatim>\<open>./util\<close> and the store's
  \<^verbatim>\<open>put\<close> and batch are not part of the source file. \<^verbatim>\<open>singleLookup\<close> is a point
  read, \<^verbatim>\<open>lookupByKeys\<close> and \<^verbatim>\<open>termRangeLookup\<close> return every requested key with
  its value or \<^verbatim>\<open>null\<close> and have identical results, and a batch is committed as one
  multi-put. The result of a multi-key lookup is its key set with the value of each key.
\<close>

type_synonym 'v lookupMap = "string fset \<times> (string \<Rightarrow> 'v option)"

definition singleLookup :: "(string \<rightharpoonup> 'v) \<Rightarrow> string \<Rightarrow> 'v option" where
  "singleLookup space key = space key"

definition lookupByKeys :: "(string \<rightharpoonup> 'v) \<Rightarrow> string fset \<Rightarrow> 'v lookupMap" where
  "lookupByKeys space ks = (ks, \<lambda>k. space k)"

definition termRangeLookup ::
    "string \<Rightarrow> (string \<rightharpoonup> 'v) \<Rightarrow> string fset \<Rightarrow> 'v lookupMap" where
  "termRangeLookup termKey space ks = (ks, \<lambda>k. space k)"

definition put :: "(string \<rightharpoonup> 'v) \<Rightarrow> string \<Rightarrow> 'v \<Rightarrow> (string \<rightharpoonup> 'v)" where
  "put space key val = space(key \<mapsto> val)"

definition idbBatchToPromise ::
    "(string \<rightharpoonup> 'v) \<Rightarrow> string fset \<Rightarrow> (string \<Rightarrow> 'v) \<Rightarrow> (string \<rightharpoonup> 'v)" where
  "idbBatchToPromise space ks val = (\<lambda>k. if k |\<in>| ks then Some (val k) else space k)"

definition termsSizeLimit :: nat where
  "termsSizeLimit = 3000"

subsection \<open>addBookmark\<close>

text \<open>
  The template literal renders a number in decimal. Timestamps are millisecond counts,
  far below \<^verbatim>\<open>1e21\<close>, from where JavaScript prints a number with an exponent.
\<close>

definition digit :: "nat \<Rightarrow> char" where
  "digit n = ''0123456789'' ! n"

function numberToString :: "nat \<Rightarrow> string" where
  "numberToString n =
     (if n < 10 then [digit n] else numberToString (n div 10) @ [digit (n mod 10)])"
  by pat_completeness auto
termination
  by (relation "measure id") auto

text \<open>
  \<open>bookmarkKeyPrefix\<close> is imported from another module and is a parameter here. An
  omitted \<^verbatim>\<open>timestamp\<close> is \<open>None\<close> and defaults to \<^verbatim>\<open>Date.now()\<close>. The page id
  is the caller's, so \<^verbatim>\<open>singleLookup(pageId)\<close> reads the whole index, and the guard
  \<^verbatim>\<open>reverseIndexDoc == null\<close> lets every value through. For a value that is not a
  document, \<^verbatim>\<open>reverseIndexDoc.bookmarks\<close> is \<^verbatim>\<open>undefined\<close> and the call of its
  \<^verbatim>\<open>add\<close> throws a \<^verbatim>\<open>TypeError\<close>, after the first \<^verbatim>\<open>put\<close>.
\<close>

definition addBookmark ::
    "string \<Rightarrow> (site \<Rightarrow> bool) \<Rightarrow> string \<Rightarrow> nat option \<Rightarrow> world \<Rightarrow> (error + unit) \<times> world" where
  "addBookmark bookmarkKeyPrefix fails pageId timestampArg w =
     (let timestamp = (case timestampArg of None \<Rightarrow> now w | Some t \<Rightarrow> t) in
      if fails BookmarkLookup then (Inl (StoreError BookmarkLookup), w)
      else case singleLookup (index w) pageId of
        None \<Rightarrow> (Inl (NoDocument pageId), w)
      | Some reverseIndexValue \<Rightarrow>
          (let bookmarkKey = bookmarkKeyPrefix @ numberToString timestamp in
           if fails BookmarkKeyPut then (Inl (StoreError BookmarkKeyPut), w)
           else
             (let w1 = w\<lparr>stamps := put (stamps w) bookmarkKey pageId,
                         writes := writes w @ [Put bookmarkKey]\<rparr>
              in case reverseIndexValue of
                   MapValue m \<Rightarrow> (Inl TypeError, w1)
                 | IdValue i \<Rightarrow> (Inl TypeError, w1)
                 | DocValue reverseIndexDoc \<Rightarrow>
                     (let reverseIndexDoc' = reverseIndexDoc
                            \<lparr>bookmarks := finsert bookmarkKey (bookmarks reverseIndexDoc)\<rparr>
                      in if fails BookmarkDocPut then (Inl (StoreError BookmarkDocPut), w1)
                         else (Inr (), w1\<lparr>docs := put (docs w1) pageId reverseIndexDoc',
                                           writes := writes w1 @ [Put pageId]\<rparr>)))))"

subsection \<open>The term, domain and timestamp indexers\<close>

text \<open>
  \<^verbatim>\<open>initIndexTerms(termsField, termKey)\<close>; the two sites are those of its lookup and
  of its batch, one pair for each of the three indexers made from it.
\<close>

definition initIndexTerms ::
    "(IndexLookupDoc \<Rightarrow> string fset) \<Rightarrow> string \<Rightarrow> site \<Rightarrow> site \<Rightarrow>
     (site \<Rightarrow> bool) \<Rightarrow> IndexLookupDoc \<Rightarrow> world \<Rightarrow> (error + unit) \<times> world" where
  "initIndexTerms termsField termKey lookupSite batchSite fails indexDoc w =
     (let termsSet = termsField indexDoc in
      if termsSet = {||} then (Inr (), w)
      else if fails lookupSite then (Inl (StoreError lookupSite), w)
      else
        (let termValuesMap =
               (if fcard termsSet > termsSizeLimit
                then termRangeLookup termKey (postings w) termsSet
                else lookupByKeys (postings w) termsSet);
             termValue = (\<lambda>term. reduceTermValue_val (snd termValuesMap term) indexDoc)
         in if fails batchSite then (Inl (StoreError batchSite), w)
            else (Inr (),
                  w\<lparr>postings := idbBatchToPromise (postings w) (fst termValuesMap) termValue,
                    writes := writes w @ [BatchPut (fst termValuesMap)]\<rparr>)))"

definition indexTerms ::
    "(site \<Rightarrow> bool) \<Rightarrow> IndexLookupDoc \<Rightarrow> world \<Rightarrow> (error + unit) \<times> world" where
  "indexTerms = initIndexTerms terms ''term/'' TermsLookup TermsBatch"

definition indexUrlTerms ::
    "(site \<Rightarrow> bool) \<Rightarrow> IndexLookupDoc \<Rightarrow> world \<Rightarrow> (error + unit) \<times> world" where
  "indexUrlTerms = initIndexTerms urlTerms ''url/'' UrlTermsLookup UrlTermsBatch"

definition indexTitleTerms ::
    "(site \<Rightarrow> bool) \<Rightarrow> IndexLookupDoc \<Rightarrow> world \<Rightarrow> (error + unit) \<times> world" where
  "indexTitleTerms = initIndexTerms titleTerms ''title/'' TitleTermsLookup TitleTermsBatch"

definition indexMetaTimestamps ::
    "(site \<Rightarrow> bool) \<Rightarrow> IndexLookupDoc \<Rightarrow> world \<Rightarrow> (error + unit) \<times> world" where
  "indexMetaTimestamps fails indexDoc w =
     (if fails MetaLookup then (Inl (StoreError MetaLookup), w)
      else
        (let timeValuesMap = lookupByKeys (stamps w) (bookmarks indexDoc |\<union>| visits indexDoc);
             batchKeys = ffilter (\<lambda>timestamp. snd timeValuesMap timestamp \<noteq> Some (doc_id indexDoc))
                           (fst timeValuesMap)
         in if fails MetaBatch then (Inl (StoreError MetaBatch), w)
            else (Inr (),
                  w\<lparr>stamps := idbBatchToPromise (stamps w) batchKeys (\<lambda>_. doc_id indexDoc),
                    writes := writes w @ [BatchPut batchKeys]\<rparr>)))"

definition indexDomain ::
    "(site \<Rightarrow> bool) \<Rightarrow> IndexLookupDoc \<Rightarrow> world \<Rightarrow> (error + unit) \<times> world" where
  "indexDomain fails indexDoc w =
     (if fails DomainLookup then (Inl (StoreError DomainLookup), w)
      else
        (let existingValue = singleLookup (postings w) (domain indexDoc) in
         if fails DomainPut then (Inl (StoreError DomainPut), w)
         else (Inr (),
               w\<lparr>postings := put (postings w) (domain indexDoc)
                                (reduceTermValue_val existingValue indexDoc),
                 writes := writes w @ [Put (domain indexDoc)]\<rparr>)))"

subsection \<open>indexPage\<close>

text \<open>
  \<open>mergeDocs\<close> is the object literal of \<^verbatim>\<open>indexPage\<close>: the incoming document spread,
  with four of its collections replaced by the union with the existing ones.
  \<^verbatim>\<open>augmentIndexLookupDoc\<close> is imported from \<^verbatim>\<open>./util\<close> and is the parameter
  \<open>augment\<close>.
\<close>

definition mergeDocs :: "IndexLookupDoc \<Rightarrow> IndexLookupDoc \<Rightarrow> IndexLookupDoc" where
  "mergeDocs existingDoc indexDoc =
     indexDoc\<lparr>terms := terms existingDoc |\<union>| terms indexDoc,
              titleTerms := titleTerms existingDoc |\<union>| titleTerms indexDoc,
              visits := visits existingDoc |\<union>| visits indexDoc,
              bookmarks := bookmarks existingDoc |\<union>| bookmarks indexDoc\<rparr>"

definition newIndexDoc :: "IndexLookupDoc option \<Rightarrow> IndexLookupDoc \<Rightarrow> IndexLookupDoc" where
  "newIndexDoc existingDoc indexDoc =
     (case existingDoc of None \<Rightarrow> indexDoc | Some e \<Rightarrow> mergeDocs e indexDoc)"

definition indexPage ::
    "(IndexLookupDoc \<Rightarrow> IndexLookupDoc) \<Rightarrow> (site \<Rightarrow> bool) \<Rightarrow> IndexLookupDoc \<Rightarrow> world \<Rightarrow>
     (error + IndexLookupDoc) \<times> world" where
  "indexPage augment fails indexDoc w =
     (if fails PageLookup then (Inl (StoreError PageLookup), w)
      else
        (let existingDoc = singleLookup (docs w) (doc_id indexDoc);
             augIndexDoc = augment (newIndexDoc existingDoc indexDoc)
         in if fails PagePut then (Inl (StoreError PagePut), w)
            else (Inr augIndexDoc,
                  w\<lparr>docs := put (docs w) (doc_id indexDoc) augIndexDoc,
                    writes := writes w @ [Put (doc_id indexDoc)]\<rparr>)))"

subsection \<open>performIndexing\<close>

text \<open>
  \<^verbatim>\<open>Promise.all\<close> starts the five indexers and rejects with the first rejection; the
  other indexers run on. Here the indexers take effect in the order of the array, each
  reading before it writes, and the rejection that \<^verbatim>\<open>catch\<close> logs is the first one
  in that order. The postings that result are the same when an indexer has read before
  another one wrote, and in any order of the writes (lemmas \<open>stale_read_same_postings\<close>
  and \<open>postingsAfter_commute\<close> below).
\<close>

fun firstError :: "(error + unit) list \<Rightarrow> error option" where
  "firstError [] = None"
| "firstError (Inl e # rs) = Some e"
| "firstError (Inr u # rs) = firstError rs"

definition runIndexers ::
    "(site \<Rightarrow> bool) \<Rightarrow> IndexLookupDoc \<Rightarrow> world \<Rightarrow> (error + unit) list \<times> world" where
  "runIndexers fails augIndexDoc w =
     (let (r1, w1) = indexDomain fails augIndexDoc w;
          (r2, w2) = indexUrlTerms fails augIndexDoc w1;
          (r3, w3) = indexTitleTerms fails augIndexDoc w2;
          (r4, w4) = indexTerms fails augIndexDoc w3;
          (r5, w5) = indexMetaTimestamps fails augIndexDoc w4
      in ([r1, r2, r3, r4, r5], w5))"

text \<open>
  The argument of \<^verbatim>\<open>performIndexing\<close> is a settled promise: rejected (\<open>Inl\<close>), or
  fulfilled with a document or with \<^verbatim>\<open>undefined\<close> (\<open>Inr None\<close>). The first two
  statements are outside the \<^verbatim>\<open>try\<close> block.
\<close>

definition performIndexing ::
    "(IndexLookupDoc \<Rightarrow> IndexLookupDoc) \<Rightarrow> (site \<Rightarrow> bool) \<Rightarrow>
     error + IndexLookupDoc option \<Rightarrow> world \<Rightarrow> (error + unit) \<times> world" where
  "performIndexing augment fails indexDocPromise w =
     (case indexDocPromise of
        Inl e \<Rightarrow> (Inl e, w)
      | Inr None \<Rightarrow> (Inl TypeError, w)
      | Inr (Some indexDoc) \<Rightarrow>
          if terms indexDoc = {||} then (Inr (), w)
          else
            (case indexPage augment fails indexDoc w of
               (Inl err, w1) \<Rightarrow> (Inr (), w1\<lparr>errlog := errlog w1 @ [err]\<rparr>)
             | (Inr augIndexDoc, w1) \<Rightarrow>
                 (let (rs, w2) = runIndexers fails augIndexDoc w1 in
                  case firstError rs of
                    None \<Rightarrow> (Inr (), w2)
                  | Some err \<Rightarrow> (Inr (), w2\<lparr>errlog := errlog w2 @ [err]\<rparr>))))"

subsection \<open>The entry points and the write queue\<close>

text \<open>
  \<open>pipeline\<close> is imported from \<^verbatim>\<open>./pipeline\<close> and is a parameter: the settled
  result of the promise it returns for a request.
\<close>

definition addPage ::
    "('r \<Rightarrow> error + IndexLookupDoc) \<Rightarrow> (IndexLookupDoc \<Rightarrow> IndexLookupDoc) \<Rightarrow>
     (site \<Rightarrow> bool) \<Rightarrow> 'r \<Rightarrow> world \<Rightarrow> (error + unit) \<times> world" where
  "addPage pipeline augment fails req w =
     performIndexing augment fails (map_sum id Some (pipeline req)) w"

text \<open>
  \<^verbatim>\<open>addPageConcurrent\<close> returns a new promise, here its index in \<open>promises\<close>. Its
  executor pushes the closure on the queue at once; \<^verbatim>\<open>pipeline(req).catch(reject)\<close>
  rejects the new promise when the pipeline rejects and is then fulfilled with
  \<^verbatim>\<open>undefined\<close>, the value of \<^verbatim>\<open>reject(...)\<close>. The world returned is the one after the
  push and after the pipeline has settled.
\<close>

definition addPageConcurrent ::
    "('r \<Rightarrow> error + IndexLookupDoc) \<Rightarrow> 'r \<Rightarrow> world \<Rightarrow> nat \<times> world" where
  "addPageConcurrent pipeline req w =
     (let p = length (promises w);
          w0 = w\<lparr>promises := promises w @ [None]\<rparr>;
          (indexDoc, w1) =
             (case pipeline req of
                Inl e \<Rightarrow> (None, settle p (Inl e) w0)
              | Inr d \<Rightarrow> (Some d, w0))
      in (p, w1\<lparr>queue := queue w1 @ [IndexTask p indexDoc]\<rparr>))"

text \<open>
  The closure that \<^verbatim>\<open>addBookmarkConcurrent\<close> pushes calls \<^verbatim>\<open>addBookmark(pageId)\<close>:
  it captures the page id and the new promise, and not \<^verbatim>\<open>timestamp\<close>.
\<close>

definition addBookmarkConcurrent :: "string \<Rightarrow> nat option \<Rightarrow> world \<Rightarrow> nat \<times> world" where
  "addBookmarkConcurrent pageId timestampArg w =
     (let timestamp = (case timestampArg of None \<Rightarrow> now w | Some t \<Rightarrow> t);
          p = length (promises w)
      in (p, w\<lparr>promises := promises w @ [None],
               queue := queue w @ [BookmarkTask p pageId]\<rparr>))"

text \<open>
  Modelled from the spec: \<^verbatim>\<open>indexQueue\<close> is not part of the source file. It runs the
  units of work one at a time in the order of submission. \<open>runNext\<close> takes the first
  unit off the queue and runs its closure, whose \<^verbatim>\<open>.then(resolve).catch(reject)\<close>
  settles the promise with the outcome.
\<close>

definition runTask ::
    "(IndexLookupDoc \<Rightarrow> IndexLookupDoc) \<Rightarrow> string \<Rightarrow> (site \<Rightarrow> bool) \<Rightarrow> task \<Rightarrow> world \<Rightarrow> world" where
  "runTask augment bookmarkKeyPrefix fails t w =
     (case t of
        IndexTask p indexDoc \<Rightarrow>
          (let (r, w1) = performIndexing augment fails (Inr indexDoc) w in settle p r w1)
      | BookmarkTask p pageId \<Rightarrow>
          (let (r, w1) = addBookmark bookmarkKeyPrefix fails pageId None w in settle p r w1))"

definition runNext ::
    "(IndexLookupDoc \<Rightarrow> IndexLookupDoc) \<Rightarrow> string \<Rightarrow> (site \<Rightarrow> bool) \<Rightarrow> world \<Rightarrow> world" where
  "runNext augment bookmarkKeyPrefix fails w =
     (case queue w of
        [] \<Rightarrow> w
      | t # ts \<Rightarrow> runTask augment bookmarkKeyPrefix fails t (w\<lparr>queue := ts\<rparr>))"

subsection \<open>Example data\<close>

definition noFault :: "site \<Rightarrow> bool" where
  "noFault s = False"

definition emptyWorld :: world where
  "emptyWorld = \<lparr>docs = Map.empty, postings = Map.empty, stamps = Map.empty,
                 writes = [], errlog = [], queue = [], promises = [], now = 100\<rparr>"

definition pageA :: IndexLookupDoc where
  "pageA = \<lparr>doc_id = ''p1'', domain = ''example.com'',
            terms = {|''term/foo'', ''term/bar''|}, urlTerms = {|''url/example''|},
            titleTerms = {|''title/foo''|}, visits = {|''visit/100''|},
            bookmarks = {||}, latest = 100\<rparr>"

definition pageA_old :: IndexLookupDoc where
  "pageA_old = \<lparr>doc_id = ''p1'', domain = ''example.com'',
            terms = {|''term/bar'', ''term/baz''|}, urlTerms = {|''url/example''|},
            titleTerms = {|''title/baz''|}, visits = {|''visit/50''|},
            bookmarks = {||}, latest = 50\<rparr>"

definition worldA :: world where
  "worldA = emptyWorld\<lparr>docs := [''p1'' \<mapsto> pageA]\<rparr>"

definition worldFoo :: world where
  "worldFoo = emptyWorld\<lparr>postings := [''term/foo'' \<mapsto> [''p1'' \<mapsto> TermEntry 100]]\<rparr>"

definition allFault :: "site \<Rightarrow> bool" where
  "allFault s = True"

definition failingPipeline :: "unit \<Rightarrow> error + IndexLookupDoc" where
  "failingPipeline req = Inl (PipelineError ''boom'')"

subsection \<open>Auxiliary notions for the proofs\<close>

text \<open>An outcome that is either success or the failure of a store call that does fail.\<close>

definition storeFailure :: "(site \<Rightarrow> bool) \<Rightarrow> error + unit \<Rightarrow> bool" where
  "storeFailure fails r =
     (case r of Inr u \<Rightarrow> True | Inl e \<Rightarrow> (\<exists>s. fails s \<and> e = StoreError s))"

text \<open>
  Some store call that the five indexers reach for the document \<open>a\<close> fails: the
  domain and timestamp indexers always call the store, a term indexer only when its
  term set is not empty.
\<close>

definition hitsFailure :: "(site \<Rightarrow> bool) \<Rightarrow> IndexLookupDoc \<Rightarrow> bool" where
  "hitsFailure fails a =
     (fails DomainLookup \<or> fails DomainPut \<or> fails MetaLookup \<or> fails MetaBatch \<or>
      (urlTerms a \<noteq> {||} \<and> (fails UrlTermsLookup \<or> fails UrlTermsBatch)) \<or>
      (titleTerms a \<noteq> {||} \<and> (fails TitleTermsLookup \<or> fails TitleTermsBatch)) \<or>
      (terms a \<noteq> {||} \<and> (fails TermsLookup \<or> fails TermsBatch)))"

text \<open>
  The term and domain keys whose write goes through in one pass over the document \<open>a\<close>,
  and the postings after \<^verbatim>\<open>reduceTermValue\<close> has been applied under a set of keys.
\<close>

definition indexedKeys :: "(site \<Rightarrow> bool) \<Rightarrow> IndexLookupDoc \<Rightarrow> string fset" where
  "indexedKeys fails a =
     (if fails DomainLookup \<or> fails DomainPut then {||} else {|domain a|}) |\<union>|
     (if fails UrlTermsLookup \<or> fails UrlTermsBatch then {||} else urlTerms a) |\<union>|
     (if fails TitleTermsLookup \<or> fails TitleTermsBatch then {||} else titleTerms a) |\<union>|
     (if fails TermsLookup \<or> fails TermsBatch then {||} else terms a)"

definition postingsAfter ::
    "string fset \<Rightarrow> IndexLookupDoc \<Rightarrow> (string \<rightharpoonup> IndexTermValue) \<Rightarrow>
     (string \<rightharpoonup> IndexTermValue)" where
  "postingsAfter ks a P = (\<lambda>k. if k |\<in>| ks then Some (reduceTermValue_val (P k) a) else P k)"

section \<open>Properties\<close>

subsection \<open>The postings merge function\<close>

lemma reduceTermValue_content:
  "(case currTermVal of None \<Rightarrow> True | Some r \<Rightarrow> r < length h) \<Longrightarrow>
   snd (reduceTermValue currTermVal indexDoc h) ! fst (reduceTermValue currTermVal indexDoc h)
     = reduceTermValue_val (map_option (\<lambda>r. h ! r) currTermVal) indexDoc"
  by (cases currTermVal) (simp_all add: reduceTermValue_def reduceTermValue_val_def)

text \<open>
  C1. Given \<^verbatim>\<open>null\<close>, \<^verbatim>\<open>reduceTermValue\<close> returns a new \<^verbatim>\<open>Map\<close> (a reference that
  was not on the heap) whose only entry takes the document's id to its \<open>latest\<close>, and
  leaves every object of the heap as it was. Given an existing \<^verbatim>\<open>Map\<close>, it returns
  the same reference, allocates nothing, sets the entry of the document's id to its
  \<open>latest\<close> in that object, and changes neither the entries of other ids nor any other
  object.
\<close>

theorem reduceTermValue_merge:
  "fst (reduceTermValue None indexDoc h) = length h \<and>
   snd (reduceTermValue None indexDoc h) =
     h @ [[doc_id indexDoc \<mapsto> TermEntry (latest indexDoc)]] \<and>
   (r < length h \<longrightarrow>
      fst (reduceTermValue (Some r) indexDoc h) = r \<and>
      length (snd (reduceTermValue (Some r) indexDoc h)) = length h \<and>
      (snd (reduceTermValue (Some r) indexDoc h) ! r) (doc_id indexDoc)
        = Some (TermEntry (latest indexDoc)) \<and>
      (\<forall>other. other \<noteq> doc_id indexDoc \<longrightarrow>
         (snd (reduceTermValue (Some r) indexDoc h) ! r) other = (h ! r) other) \<and>
      (\<forall>q. q \<noteq> r \<longrightarrow> snd (reduceTermValue (Some r) indexDoc h) ! q = h ! q))"
  by (simp add: reduceTermValue_def)

theorem reduceTermValue_merge_witness:
  "(0::nat) < length [[''p2'' \<mapsto> TermEntry 7], Map.empty] \<and>
   fst (reduceTermValue (Some 0) pageA [[''p2'' \<mapsto> TermEntry 7], Map.empty]) = 0 \<and>
   (snd (reduceTermValue (Some 0) pageA [[''p2'' \<mapsto> TermEntry 7], Map.empty]) ! 0) ''p1''
      = Some (TermEntry 100) \<and>
   (snd (reduceTermValue (Some 0) pageA [[''p2'' \<mapsto> TermEntry 7], Map.empty]) ! 0) ''p2''
      = Some (TermEntry 7) \<and>
   snd (reduceTermValue (Some 0) pageA [[''p2'' \<mapsto> TermEntry 7], Map.empty]) ! 1 = Map.empty"
  using reduceTermValue_merge [of pageA "[[''p2'' \<mapsto> TermEntry 7], Map.empty]" 0]
  by (simp add: pageA_def)

subsection \<open>The page document merge\<close>

text \<open>
  C2. When the lookup and the write of \<^verbatim>\<open>indexPage\<close> go through, what it returns and
  stores under the document's id is the augmentation of the record \<open>newIndexDoc\<close>. With
  no stored record that record is the incoming document as it is. With a stored record
  it has the incoming document's id, the unions of the stored and the incoming
  \<open>terms\<close>, \<open>titleTerms\<close>, \<open>visits\<close> and \<open>bookmarks\<close>, and the incoming document's
  \<open>urlTerms\<close>, \<open>domain\<close> and \<open>latest\<close>.
\<close>

theorem indexPage_merge:
  "\<not> fails PageLookup \<and> \<not> fails PagePut \<longrightarrow>
     fst (indexPage augment fails indexDoc w)
       = Inr (augment (newIndexDoc (docs w (doc_id indexDoc)) indexDoc)) \<and>
     docs (snd (indexPage augment fails indexDoc w)) (doc_id indexDoc)
       = Some (augment (newIndexDoc (docs w (doc_id indexDoc)) indexDoc)) \<and>
     newIndexDoc None indexDoc = indexDoc \<and>
     doc_id (newIndexDoc (Some existingDoc) indexDoc) = doc_id indexDoc \<and>
     terms (newIndexDoc (Some existingDoc) indexDoc) = terms existingDoc |\<union>| terms indexDoc \<and>
     titleTerms (newIndexDoc (Some existingDoc) indexDoc)
       = titleTerms existingDoc |\<union>| titleTerms indexDoc \<and>
     visits (newIndexDoc (Some existingDoc) indexDoc) = visits existingDoc |\<union>| visits indexDoc \<and>
     bookmarks (newIndexDoc (Some existingDoc) indexDoc)
       = bookmarks existingDoc |\<union>| bookmarks indexDoc \<and>
     urlTerms (newIndexDoc (Some existingDoc) indexDoc) = urlTerms indexDoc \<and>
     domain (newIndexDoc (Some existingDoc) indexDoc) = domain indexDoc \<and>
     latest (newIndexDoc (Some existingDoc) indexDoc) = latest indexDoc"
  by (simp add: indexPage_def newIndexDoc_def mergeDocs_def singleLookup_def put_def Let_def)

theorem indexPage_merge_witness:
  "\<not> noFault PageLookup \<and> \<not> noFault PagePut \<and>
   docs (snd (indexPage id noFault pageA_old worldA)) ''p1''
     = Some (pageA_old\<lparr>terms := {|''term/foo'', ''term/bar'', ''term/baz''|},
                       titleTerms := {|''title/foo'', ''title/baz''|},
                       visits := {|''visit/100'', ''visit/50''|}\<rparr>)"
  using indexPage_merge [of noFault id pageA_old worldA pageA]
  by (auto simp add: noFault_def pageA_old_def pageA_def worldA_def emptyWorld_def
        newIndexDoc_def mergeDocs_def)

subsection \<open>The orchestration\<close>

text \<open>
  C7. For a document whose \<open>terms\<close> are empty, \<^verbatim>\<open>performIndexing\<close> is fulfilled and
  the world is the one it started from: no store call, no write and no log entry,
  whatever the other fields of the document, the augmentation and the failing sites.
\<close>

theorem performIndexing_empty_terms:
  "terms indexDoc = {||} \<Longrightarrow>
   performIndexing augment fails (Inr (Some indexDoc)) w = (Inr (), w)"
  by (simp add: performIndexing_def)

theorem performIndexing_empty_terms_witness:
  "terms (pageA\<lparr>terms := {||}\<rparr>) = {||} \<and>
   performIndexing id noFault (Inr (Some (pageA\<lparr>terms := {||}\<rparr>))) worldA = (Inr (), worldA)"
  using performIndexing_empty_terms [of "pageA\<lparr>terms := {||}\<rparr>" id noFault worldA]
  by simp

lemma runIndexers_unfold:
  "runIndexers fails a w =
     ([fst (indexDomain fails a w),
       fst (indexUrlTerms fails a (snd (indexDomain fails a w))),
       fst (indexTitleTerms fails a (snd (indexUrlTerms fails a (snd (indexDomain fails a w))))),
       fst (indexTerms fails a (snd (indexTitleTerms fails a
              (snd (indexUrlTerms fails a (snd (indexDomain fails a w))))))),
       fst (indexMetaTimestamps fails a (snd (indexTerms fails a (snd (indexTitleTerms fails a
              (snd (indexUrlTerms fails a (snd (indexDomain fails a w)))))))))],
      snd (indexMetaTimestamps fails a (snd (indexTerms fails a (snd (indexTitleTerms fails a
              (snd (indexUrlTerms fails a (snd (indexDomain fails a w))))))))))"
  by (simp add: runIndexers_def case_prod_beta)

lemma initIndexTerms_result:
  "storeFailure fails (fst (initIndexTerms f k ls bs fails a w)) \<and>
   errlog (snd (initIndexTerms f k ls bs fails a w)) = errlog w"
  by (auto simp: initIndexTerms_def storeFailure_def Let_def)

lemma initIndexTerms_rejects:
  "f a \<noteq> {||} \<Longrightarrow> fails ls \<or> fails bs \<Longrightarrow> \<exists>e. fst (initIndexTerms f k ls bs fails a w) = Inl e"
  by (auto simp: initIndexTerms_def Let_def)

lemma indexDomain_result:
  "storeFailure fails (fst (indexDomain fails a w)) \<and>
   errlog (snd (indexDomain fails a w)) = errlog w"
  by (auto simp: indexDomain_def storeFailure_def Let_def)

lemma indexDomain_rejects:
  "fails DomainLookup \<or> fails DomainPut \<Longrightarrow> \<exists>e. fst (indexDomain fails a w) = Inl e"
  by (auto simp: indexDomain_def Let_def)

lemma indexMetaTimestamps_result:
  "storeFailure fails (fst (indexMetaTimestamps fails a w)) \<and>
   errlog (snd (indexMetaTimestamps fails a w)) = errlog w"
  by (auto simp: indexMetaTimestamps_def storeFailure_def Let_def)

lemma indexMetaTimestamps_rejects:
  "fails MetaLookup \<or> fails MetaBatch \<Longrightarrow> \<exists>e. fst (indexMetaTimestamps fails a w) = Inl e"
  by (auto simp: indexMetaTimestamps_def Let_def)

lemma firstError_storeFailure:
  "list_all (storeFailure fails) rs \<Longrightarrow> firstError rs = Some e \<Longrightarrow> \<exists>s. fails s \<and> e = StoreError s"
  by (induction rs rule: firstError.induct) (auto simp: storeFailure_def)

lemma firstError_None: "firstError rs = None \<Longrightarrow> r \<in> set rs \<Longrightarrow> \<exists>u. r = Inr u"
  by (induction rs rule: firstError.induct) auto

lemma firstError_member: "r \<in> set rs \<Longrightarrow> r = Inl e \<Longrightarrow> firstError rs \<noteq> None"
  using firstError_None by fastforce

lemma runIndexers_errlog: "errlog (snd (runIndexers fails a w)) = errlog w"
  by (simp add: runIndexers_unfold indexTerms_def indexUrlTerms_def indexTitleTerms_def
        initIndexTerms_result indexDomain_result indexMetaTimestamps_result)

lemma runIndexers_storeFailure: "list_all (storeFailure fails) (fst (runIndexers fails a w))"
  by (simp add: runIndexers_unfold indexTerms_def indexUrlTerms_def indexTitleTerms_def
        initIndexTerms_result indexDomain_result indexMetaTimestamps_result)

lemma runIndexers_logged:
  "firstError (fst (runIndexers fails a w)) = Some e \<Longrightarrow> \<exists>s. fails s \<and> e = StoreError s"
  using firstError_storeFailure [OF runIndexers_storeFailure] by blast

lemma not_rejected: "\<exists>u. r = Inr u \<Longrightarrow> \<not> (\<exists>e. r = Inl e)"
  by auto

lemma runIndexers_rejects:
  assumes "hitsFailure fails a"
  shows "firstError (fst (runIndexers fails a w)) \<noteq> None"
proof
  assume none: "firstError (fst (runIndexers fails a w)) = None"
  define w1 where "w1 = snd (indexDomain fails a w)"
  define w2 where "w2 = snd (indexUrlTerms fails a w1)"
  define w3 where "w3 = snd (indexTitleTerms fails a w2)"
  define w4 where "w4 = snd (indexTerms fails a w3)"
  have rs: "fst (runIndexers fails a w) =
      [fst (indexDomain fails a w), fst (indexUrlTerms fails a w1),
       fst (indexTitleTerms fails a w2), fst (indexTerms fails a w3),
       fst (indexMetaTimestamps fails a w4)]"
    by (simp add: runIndexers_unfold w1_def w2_def w3_def w4_def)
  have d: "\<not> (\<exists>e. fst (indexDomain fails a w) = Inl e)"
    by (rule not_rejected, rule firstError_None [OF none]) (simp add: rs)
  have u: "\<not> (\<exists>e. fst (initIndexTerms urlTerms ''url/'' UrlTermsLookup UrlTermsBatch fails a w1) = Inl e)"
    by (rule not_rejected, rule firstError_None [OF none]) (simp add: rs indexUrlTerms_def)
  have t: "\<not> (\<exists>e. fst (initIndexTerms titleTerms ''title/'' TitleTermsLookup TitleTermsBatch fails a w2) = Inl e)"
    by (rule not_rejected, rule firstError_None [OF none]) (simp add: rs indexTitleTerms_def)
  have b: "\<not> (\<exists>e. fst (initIndexTerms terms ''term/'' TermsLookup TermsBatch fails a w3) = Inl e)"
    by (rule not_rejected, rule firstError_None [OF none]) (simp add: rs indexTerms_def)
  have m: "\<not> (\<exists>e. fst (indexMetaTimestamps fails a w4) = Inl e)"
    by (rule not_rejected, rule firstError_None [OF none]) (simp add: rs)
  from d have d': "\<not> (fails DomainLookup \<or> fails DomainPut)"
    using indexDomain_rejects [of fails a w] by blast
  from m have m': "\<not> (fails MetaLookup \<or> fails MetaBatch)"
    using indexMetaTimestamps_rejects [of fails a w4] by blast
  from u have u': "\<not> (urlTerms a \<noteq> {||} \<and> (fails UrlTermsLookup \<or> fails UrlTermsBatch))"
    using initIndexTerms_rejects [of urlTerms a fails UrlTermsLookup UrlTermsBatch] by blast
  from t have t': "\<not> (titleTerms a \<noteq> {||} \<and> (fails TitleTermsLookup \<or> fails TitleTermsBatch))"
    using initIndexTerms_rejects [of titleTerms a fails TitleTermsLookup TitleTermsBatch] by blast
  from b have b': "\<not> (terms a \<noteq> {||} \<and> (fails TermsLookup \<or> fails TermsBatch))"
    using initIndexTerms_rejects [of terms a fails TermsLookup TermsBatch] by blast
  from assms d' m' u' t' b' show False
    unfolding hitsFailure_def by blast
qed

lemma indexPage_rejected:
  "indexPage augment fails d w = (Inl err, w1) \<Longrightarrow>
     w1 = w \<and> (\<exists>s. fails s \<and> err = StoreError s)"
  by (auto simp: indexPage_def Let_def split: if_splits)

lemma indexPage_fulfilled:
  "indexPage augment fails d w = (Inr a, w1) \<Longrightarrow>
     \<not> fails PageLookup \<and> \<not> fails PagePut \<and> errlog w1 = errlog w \<and>
     a = augment (newIndexDoc (docs w (doc_id d)) d)"
  by (auto simp: indexPage_def Let_def singleLookup_def split: if_splits)

text \<open>
  C3. For a document whose \<open>terms\<close> are not empty, \<^verbatim>\<open>performIndexing\<close> is fulfilled
  whichever store calls fail. When the first lookup fails nothing is applied and the
  world is as before but for the logged error. Whenever a store call that the pass
  reaches fails, the pass logs exactly one error, the failure of a failing store call
  (of the rejections of the five indexers, the one first in the array), and when no
  store call fails it logs nothing.
\<close>

theorem performIndexing_swallows:
  "terms indexDoc \<noteq> {||} \<Longrightarrow>
   fst (performIndexing augment fails (Inr (Some indexDoc)) w) = Inr () \<and>
   (fails PageLookup \<longrightarrow>
      snd (performIndexing augment fails (Inr (Some indexDoc)) w)
        = w\<lparr>errlog := errlog w @ [StoreError PageLookup]\<rparr>) \<and>
   (fails PageLookup \<or> fails PagePut \<or>
    hitsFailure fails (augment (newIndexDoc (docs w (doc_id indexDoc)) indexDoc)) \<longrightarrow>
      (\<exists>s. fails s \<and>
         errlog (snd (performIndexing augment fails (Inr (Some indexDoc)) w))
           = errlog w @ [StoreError s])) \<and>
   ((\<forall>s. \<not> fails s) \<longrightarrow>
      errlog (snd (performIndexing augment fails (Inr (Some indexDoc)) w)) = errlog w)"
proof (intro conjI impI)
  assume ne: "terms indexDoc \<noteq> {||}"
  show "fst (performIndexing augment fails (Inr (Some indexDoc)) w) = Inr ()"
    using ne by (auto simp: performIndexing_def split: prod.splits sum.splits option.splits)
  show "snd (performIndexing augment fails (Inr (Some indexDoc)) w)
        = w\<lparr>errlog := errlog w @ [StoreError PageLookup]\<rparr>" if "fails PageLookup"
    using ne that by (simp add: performIndexing_def indexPage_def)
  show "\<exists>s. fails s \<and>
         errlog (snd (performIndexing augment fails (Inr (Some indexDoc)) w))
           = errlog w @ [StoreError s]"
    if f: "fails PageLookup \<or> fails PagePut \<or>
           hitsFailure fails (augment (newIndexDoc (docs w (doc_id indexDoc)) indexDoc))"
  proof (cases "indexPage augment fails indexDoc w")
    case (Pair r w1)
    show ?thesis
    proof (cases r)
      case (Inl err)
      with Pair indexPage_rejected [of augment fails indexDoc w err w1] ne
      show ?thesis by (auto simp: performIndexing_def)
    next
      case (Inr a)
      with Pair have ok: "\<not> fails PageLookup" "\<not> fails PagePut" "errlog w1 = errlog w"
          "a = augment (newIndexDoc (docs w (doc_id indexDoc)) indexDoc)"
        using indexPage_fulfilled [of augment fails indexDoc w a w1] by auto
      with f have "firstError (fst (runIndexers fails a w1)) \<noteq> None"
        using runIndexers_rejects [of fails a w1] by blast
      then obtain e where e: "firstError (fst (runIndexers fails a w1)) = Some e" by auto
      then obtain s where s: "fails s" "e = StoreError s"
        using runIndexers_logged by blast
      have "errlog (snd (performIndexing augment fails (Inr (Some indexDoc)) w))
              = errlog w @ [StoreError s]"
        using ne Pair Inr e s ok(3) runIndexers_errlog [of fails a w1]
        by (simp add: performIndexing_def case_prod_beta)
      with s show ?thesis by blast
    qed
  qed
  show "errlog (snd (performIndexing augment fails (Inr (Some indexDoc)) w)) = errlog w"
    if nf: "\<forall>s. \<not> fails s"
  proof (cases "indexPage augment fails indexDoc w")
    case (Pair r w1)
    show ?thesis
    proof (cases r)
      case (Inl err)
      with Pair indexPage_rejected [of augment fails indexDoc w err w1] nf
      show ?thesis by blast
    next
      case (Inr a)
      with Pair have ok: "errlog w1 = errlog w"
        using indexPage_fulfilled [of augment fails indexDoc w a w1] by auto
      have "firstError (fst (runIndexers fails a w1)) = None"
        using runIndexers_logged [of fails a w1] nf by (cases "firstError (fst (runIndexers fails a w1))") auto
      then show ?thesis
        using ne Pair Inr ok runIndexers_errlog [of fails a w1]
        by (simp add: performIndexing_def case_prod_beta)
    qed
  qed
qed

theorem performIndexing_swallows_witness:
  "terms pageA \<noteq> {||} \<and> allFault PageLookup \<and>
   performIndexing id allFault (Inr (Some pageA)) emptyWorld
     = (Inr (), emptyWorld\<lparr>errlog := [StoreError PageLookup]\<rparr>)"
  using performIndexing_swallows [of pageA id allFault emptyWorld]
  by (simp add: performIndexing_def indexPage_def allFault_def pageA_def emptyWorld_def)

subsection \<open>Bookmark attachment\<close>

text \<open>
  C8. A page id under which the index holds a value that is not a document has no
  stored document, and \<^verbatim>\<open>addBookmark\<close> does not fail with the error that no
  document exists there, and it writes: with a \<^verbatim>\<open>Map\<close> stored under
  \<open>term/foo\<close>, \<^verbatim>\<open>addBookmark('term/foo', 5)\<close> writes the entry of the bookmark key
  and is then rejected with a \<^verbatim>\<open>TypeError\<close>.
\<close>

theorem addBookmark_non_document_counterexample:
  "docs worldFoo ''term/foo'' = None \<and>
   fst (addBookmark ''bookmark/'' noFault ''term/foo'' (Some 5) worldFoo) = Inl TypeError \<and>
   writes worldFoo = [] \<and>
   writes (snd (addBookmark ''bookmark/'' noFault ''term/foo'' (Some 5) worldFoo))
     = [Put ''bookmark/5''] \<and>
   stamps (snd (addBookmark ''bookmark/'' noFault ''term/foo'' (Some 5) worldFoo)) ''bookmark/5''
     = Some ''term/foo''"
  by (simp add: addBookmark_def index_def singleLookup_def put_def Let_def noFault_def
        worldFoo_def emptyWorld_def digit_def)

text \<open>
  C8, as amended. When the index holds nothing under \<open>pageId\<close>, \<^verbatim>\<open>addBookmark\<close>
  leaves the world as it was, so it writes neither the timestamp entry nor the record,
  and, its lookup having answered, it is rejected with the error that no document
  exists for that page id. When a document is stored under \<open>pageId\<close> it is never
  rejected with that error.
\<close>

theorem addBookmark_precondition:
  "(index w pageId = None \<longrightarrow>
      snd (addBookmark bookmarkKeyPrefix fails pageId timestampArg w) = w \<and>
      (\<exists>e. fst (addBookmark bookmarkKeyPrefix fails pageId timestampArg w) = Inl e)) \<and>
   (index w pageId = None \<and> \<not> fails BookmarkLookup \<longrightarrow>
      addBookmark bookmarkKeyPrefix fails pageId timestampArg w = (Inl (NoDocument pageId), w)) \<and>
   (docs w pageId \<noteq> None \<longrightarrow>
      fst (addBookmark bookmarkKeyPrefix fails pageId timestampArg w) \<noteq> Inl (NoDocument anyId))"
  by (auto simp: addBookmark_def index_def singleLookup_def Let_def
        split: option.splits indexValue.splits)

theorem addBookmark_precondition_witness:
  "index emptyWorld ''p9'' = None \<and> \<not> noFault BookmarkLookup \<and>
   addBookmark ''bookmark/'' noFault ''p9'' (Some 5) emptyWorld
     = (Inl (NoDocument ''p9''), emptyWorld) \<and>
   docs worldA ''p1'' \<noteq> None \<and>
   fst (addBookmark ''bookmark/'' noFault ''p1'' (Some 5) worldA) \<noteq> Inl (NoDocument ''p1'')"
  using addBookmark_precondition [of emptyWorld "''p9''" "''bookmark/''" noFault "Some 5"]
        addBookmark_precondition [of worldA "''p1''" "''bookmark/''" noFault "Some 5" "''p1''"]
  by (simp add: index_def emptyWorld_def worldA_def noFault_def)

text \<open>
  C10. When a document is stored under \<open>pageId\<close>, a second \<^verbatim>\<open>addBookmark\<close> with
  the same page id and the same timestamp leaves the documents, the postings and the
  timestamp entries as the first one left them, whichever store calls fail. When none
  fails, the bookmark key is mapped to \<open>pageId\<close> and the stored record is the
  former one with the key added to its bookmark set, after one call and after two.
\<close>

theorem addBookmark_twice:
  "docs w pageId = Some d \<Longrightarrow>
   docs (snd (addBookmark pfx fails pageId (Some t) (snd (addBookmark pfx fails pageId (Some t) w))))
     = docs (snd (addBookmark pfx fails pageId (Some t) w)) \<and>
   stamps (snd (addBookmark pfx fails pageId (Some t) (snd (addBookmark pfx fails pageId (Some t) w))))
     = stamps (snd (addBookmark pfx fails pageId (Some t) w)) \<and>
   postings (snd (addBookmark pfx fails pageId (Some t) (snd (addBookmark pfx fails pageId (Some t) w))))
     = postings (snd (addBookmark pfx fails pageId (Some t) w)) \<and>
   ((\<forall>s. \<not> fails s) \<longrightarrow>
      stamps (snd (addBookmark pfx fails pageId (Some t) w)) (pfx @ numberToString t) = Some pageId \<and>
      docs (snd (addBookmark pfx fails pageId (Some t) w)) pageId
        = Some (d\<lparr>bookmarks := finsert (pfx @ numberToString t) (bookmarks d)\<rparr>) \<and>
      docs (snd (addBookmark pfx fails pageId (Some t) (snd (addBookmark pfx fails pageId (Some t) w))))
         pageId
        = Some (d\<lparr>bookmarks := finsert (pfx @ numberToString t) (bookmarks d)\<rparr>))"
  by (auto simp: addBookmark_def index_def Let_def singleLookup_def put_def)

theorem addBookmark_twice_witness:
  "docs worldA ''p1'' = Some pageA \<and> (\<forall>s. \<not> noFault s) \<and>
   stamps (snd (addBookmark ''bookmark/'' noFault ''p1'' (Some 5)
                 (snd (addBookmark ''bookmark/'' noFault ''p1'' (Some 5) worldA)))) ''bookmark/5''
     = Some ''p1'' \<and>
   docs (snd (addBookmark ''bookmark/'' noFault ''p1'' (Some 5)
               (snd (addBookmark ''bookmark/'' noFault ''p1'' (Some 5) worldA)))) ''p1''
     = Some (pageA\<lparr>bookmarks := {|''bookmark/5''|}\<rparr>)"
  using addBookmark_twice [of worldA "''p1''" pageA "''bookmark/''" noFault 5]
  by (simp add: worldA_def emptyWorld_def noFault_def pageA_def digit_def)

text \<open>
  C5. The page \<open>p1\<close> is stored and \<^verbatim>\<open>Date.now()\<close> is 100.
  \<^verbatim>\<open>addBookmarkConcurrent('p1', 5)\<close> followed by the run of the queued closure writes
  the key made of the prefix and 100; no entry is written under the key made of the
  prefix and the supplied timestamp 5.
\<close>

theorem addBookmarkConcurrent_drops_timestamp:
  "now worldA = 100 \<and>
   stamps (runNext id ''bookmark/'' noFault (snd (addBookmarkConcurrent ''p1'' (Some 5) worldA)))
      ''bookmark/100'' = Some ''p1'' \<and>
   stamps (runNext id ''bookmark/'' noFault (snd (addBookmarkConcurrent ''p1'' (Some 5) worldA)))
      ''bookmark/5'' = None \<and>
   stamps (snd (addBookmark ''bookmark/'' noFault ''p1'' (Some 5) worldA)) ''bookmark/5''
      = Some ''p1''"
  by (simp add: addBookmarkConcurrent_def runNext_def runTask_def addBookmark_def index_def
      Let_def singleLookup_def put_def noFault_def worldA_def emptyWorld_def settle_def digit_def)

subsection \<open>Submission through the queue\<close>

text \<open>
  C4. A rejecting pipeline does not keep work off the queue: with a pipeline that
  rejects, \<^verbatim>\<open>addPageConcurrent\<close> on the empty queue leaves one unit of work on it.
\<close>

theorem addPageConcurrent_enqueues_counterexample:
  "failingPipeline () = Inl (PipelineError ''boom'') \<and>
   queue emptyWorld = [] \<and>
   queue (snd (addPageConcurrent failingPipeline () emptyWorld)) = [IndexTask 0 None]"
  by (simp add: addPageConcurrent_def failingPipeline_def emptyWorld_def settle_def)

text \<open>
  C4, as amended. When the pipeline rejects with \<open>e\<close>, \<^verbatim>\<open>addPageConcurrent\<close> rejects
  the promise it returns with \<open>e\<close> and changes nothing else but the queue, on which it
  pushes its unit of work all the same. Whenever that unit is run after the promise has
  been settled, it leaves the world as it is: no store call, no write.
\<close>

theorem addPageConcurrent_rejection:
  "pipeline req = Inl e \<Longrightarrow>
   fst (addPageConcurrent pipeline req w) = length (promises w) \<and>
   snd (addPageConcurrent pipeline req w)
     = w\<lparr>promises := promises w @ [Some (Inl e)],
         queue := queue w @ [IndexTask (length (promises w)) None]\<rparr> \<and>
   (p < length (promises w') \<and> promises w' ! p \<noteq> None \<longrightarrow>
      runTask augment bookmarkKeyPrefix fails (IndexTask p None) w' = w')"
  by (auto simp: addPageConcurrent_def settle_def runTask_def performIndexing_def Let_def)

theorem addPageConcurrent_rejection_witness:
  "failingPipeline () = Inl (PipelineError ''boom'') \<and>
   snd (addPageConcurrent failingPipeline () worldA)
     = worldA\<lparr>promises := [Some (Inl (PipelineError ''boom''))], queue := [IndexTask 0 None]\<rparr> \<and>
   (0::nat) < length (promises (snd (addPageConcurrent failingPipeline () worldA))) \<and>
   promises (snd (addPageConcurrent failingPipeline () worldA)) ! 0 \<noteq> None \<and>
   runNext id ''bookmark/'' noFault (snd (addPageConcurrent failingPipeline () worldA))
     = worldA\<lparr>promises := [Some (Inl (PipelineError ''boom''))], queue := []\<rparr>"
  using addPageConcurrent_rejection [of failingPipeline "()" "PipelineError ''boom''" worldA 0
          "worldA\<lparr>promises := [Some (Inl (PipelineError ''boom''))], queue := []\<rparr>"
          id "''bookmark/''" noFault]
  by (simp add: failingPipeline_def worldA_def emptyWorld_def runNext_def)

subsection \<open>Indexing the same document twice\<close>

lemma reduceTermValue_val_twice:
  "reduceTermValue_val (Some (reduceTermValue_val cur a)) a = reduceTermValue_val cur a"
  by (simp add: reduceTermValue_val_def split: option.splits)

lemma postingsAfter_union:
  "postingsAfter ks a (postingsAfter ks' a P) = postingsAfter (ks |\<union>| ks') a P"
  by (rule ext) (simp add: postingsAfter_def reduceTermValue_val_twice)

lemma postingsAfter_commute:
  "postingsAfter ks a (postingsAfter ks' a P) = postingsAfter ks' a (postingsAfter ks a P)"
  by (simp add: postingsAfter_union sup_commute)

lemma stale_read_same_postings:
  "idbBatchToPromise (postingsAfter ks' a P) ks (\<lambda>term. reduceTermValue_val (P term) a)
     = postingsAfter (ks |\<union>| ks') a P"
  by (rule ext) (simp add: idbBatchToPromise_def postingsAfter_def)

lemma initIndexTerms_store:
  "postings (snd (initIndexTerms f k ls bs fails a w))
     = postingsAfter (if fails ls \<or> fails bs then {||} else f a) a (postings w) \<and>
   docs (snd (initIndexTerms f k ls bs fails a w)) = docs w"
  by (auto simp: initIndexTerms_def Let_def postingsAfter_def idbBatchToPromise_def
        lookupByKeys_def termRangeLookup_def)

lemma indexDomain_store:
  "postings (snd (indexDomain fails a w))
     = postingsAfter (if fails DomainLookup \<or> fails DomainPut then {||} else {|domain a|}) a
         (postings w) \<and>
   docs (snd (indexDomain fails a w)) = docs w"
  by (auto simp: indexDomain_def Let_def postingsAfter_def put_def singleLookup_def)

lemma indexMetaTimestamps_store:
  "postings (snd (indexMetaTimestamps fails a w)) = postings w \<and>
   docs (snd (indexMetaTimestamps fails a w)) = docs w"
  by (simp add: indexMetaTimestamps_def Let_def)

lemma runIndexers_store:
  "postings (snd (runIndexers fails a w)) = postingsAfter (indexedKeys fails a) a (postings w) \<and>
   docs (snd (runIndexers fails a w)) = docs w"
  by (simp add: runIndexers_unfold indexTerms_def indexUrlTerms_def indexTitleTerms_def
        initIndexTerms_store indexDomain_store indexMetaTimestamps_store
        postingsAfter_union indexedKeys_def sup_commute sup_left_commute)

lemma newIndexDoc_again:
  assumes "terms (augment (newIndexDoc e d)) = terms (newIndexDoc e d)"
      and "titleTerms (augment (newIndexDoc e d)) = titleTerms (newIndexDoc e d)"
      and "visits (augment (newIndexDoc e d)) = visits (newIndexDoc e d)"
      and "bookmarks (augment (newIndexDoc e d)) = bookmarks (newIndexDoc e d)"
  shows "newIndexDoc (Some (augment (newIndexDoc e d))) d = newIndexDoc e d"
  using assms by (cases e) (simp_all add: newIndexDoc_def mergeDocs_def)

lemma performIndexing_failed_page:
  "terms d \<noteq> {||} \<Longrightarrow> fails PageLookup \<or> fails PagePut \<Longrightarrow>
   postings (snd (performIndexing augment fails (Inr (Some d)) w)) = postings w \<and>
   docs (snd (performIndexing augment fails (Inr (Some d)) w)) = docs w"
  by (auto simp: performIndexing_def indexPage_def Let_def)

lemma performIndexing_store:
  assumes "terms d \<noteq> {||}" "\<not> fails PageLookup" "\<not> fails PagePut"
  shows "postings (snd (performIndexing augment fails (Inr (Some d)) w))
           = postingsAfter (indexedKeys fails (augment (newIndexDoc (docs w (doc_id d)) d)))
               (augment (newIndexDoc (docs w (doc_id d)) d)) (postings w) \<and>
         docs (snd (performIndexing augment fails (Inr (Some d)) w)) (doc_id d)
           = Some (augment (newIndexDoc (docs w (doc_id d)) d))"
  using assms
  by (simp add: performIndexing_def indexPage_def Let_def singleLookup_def put_def
        case_prod_beta runIndexers_store split: option.splits)

text \<open>
  C9. With an augmentation that leaves the four merged collections of a record as they
  are, a second \<^verbatim>\<open>performIndexing\<close> of the same document leaves every postings entry
  (the term, URL term, title term and domain keys alike) as the first one left it, from
  any initial world and whichever store calls fail in both passes.
\<close>

theorem performIndexing_idempotent:
  assumes aug: "\<forall>x. terms (augment x) = terms x \<and> titleTerms (augment x) = titleTerms x \<and>
                    visits (augment x) = visits x \<and> bookmarks (augment x) = bookmarks x"
  shows "postings (snd (performIndexing augment fails (Inr (Some d))
                     (snd (performIndexing augment fails (Inr (Some d)) w))))
         = postings (snd (performIndexing augment fails (Inr (Some d)) w))"
proof (cases "terms d = {||}")
  case True
  then show ?thesis by (simp add: performIndexing_def)
next
  case ne: False
  show ?thesis
  proof (cases "fails PageLookup \<or> fails PagePut")
    case True
    with ne show ?thesis by (simp add: performIndexing_failed_page)
  next
    case False
    then have ok: "\<not> fails PageLookup" "\<not> fails PagePut" by auto
    define w1 where "w1 = snd (performIndexing augment fails (Inr (Some d)) w)"
    define a where "a = augment (newIndexDoc (docs w (doc_id d)) d)"
    have first: "postings w1 = postingsAfter (indexedKeys fails a) a (postings w)"
      and stored: "docs w1 (doc_id d) = Some a"
      using performIndexing_store [OF ne ok, of augment w] by (simp_all add: w1_def a_def)
    have same: "augment (newIndexDoc (docs w1 (doc_id d)) d) = a"
      using newIndexDoc_again [of augment "docs w (doc_id d)" d] aug
      by (simp add: stored a_def)
    have "postings (snd (performIndexing augment fails (Inr (Some d)) w1))
            = postingsAfter (indexedKeys fails a) a (postings w1)"
      using performIndexing_store [OF ne ok, of augment w1] by (simp add: same)
    also have "\<dots> = postings w1"
      by (simp add: first postingsAfter_union)
    finally show ?thesis by (simp add: w1_def)
  qed
qed

theorem performIndexing_idempotent_witness:
  "(\<forall>x. terms (id x) = terms x \<and> titleTerms (id x) = titleTerms x \<and>
        visits (id x) = visits x \<and> bookmarks (id x) = bookmarks x) \<and>
   postings (snd (performIndexing id noFault (Inr (Some pageA))
                    (snd (performIndexing id noFault (Inr (Some pageA)) emptyWorld))))
     = postings (snd (performIndexing id noFault (Inr (Some pageA)) emptyWorld)) \<and>
   postings (snd (performIndexing id noFault (Inr (Some pageA)) emptyWorld)) ''term/foo''
     = Some [''p1'' \<mapsto> TermEntry 100]"
  using performIndexing_idempotent [of id noFault pageA emptyWorld]
  by (simp add: performIndexing_store noFault_def pageA_def emptyWorld_def postingsAfter_def
        indexedKeys_def newIndexDoc_def reduceTermValue_val_def)

end
